theory Spec2Isabelle
  imports Main "HOL-Library.Sublist"
begin

section \<open>Python values used by music.py\<close>

text \<open>
  A Python \<open>str\<close> is a \<open>string\<close>: each \<open>char\<close> stands for one code point below 256.
  Exceptions are values of \<open>py_error\<close>; a function that may raise returns
  \<open>py_error + 'a\<close> with \<open>Inl\<close> for the exception.
\<close>

datatype py_error =
    IndexError
  | ValueError
  | KeyError
  | TypeError
  | FileNotFoundError
  | JSONDecodeError
  | OSError

text \<open>\<open>str.isspace\<close> on one code point below 256.\<close>

definition py_isspace :: "char \<Rightarrow> bool" where
  "py_isspace c =
     (let n = (of_char c :: nat)
      in (9 \<le> n \<and> n \<le> 13) \<or> (28 \<le> n \<and> n \<le> 32) \<or> n = 133 \<or> n = 160)"

text \<open>\<open>str.strip()\<close>: leading and trailing whitespace removed.\<close>

definition py_strip :: "string \<Rightarrow> string" where
  "py_strip s = rev (dropWhile py_isspace (rev (dropWhile py_isspace s)))"

text \<open>\<open>str.lower()\<close>: A-Z and the upper-case letters of Latin-1 (0xC0-0xDE but 0xD7).\<close>

definition py_lower_char :: "char \<Rightarrow> char" where
  "py_lower_char c =
     (let n = (of_char c :: nat)
      in if (65 \<le> n \<and> n \<le> 90) \<or> (192 \<le> n \<and> n \<le> 222 \<and> n \<noteq> 215)
         then char_of (n + 32) else c)"

definition py_lower :: "string \<Rightarrow> string" where
  "py_lower s = map py_lower_char s"

text \<open>
  \<open>str.split(sep)\<close> for a separator of one character: the pieces between the
  separators, empty pieces kept; never an empty list.
\<close>

fun py_split :: "char \<Rightarrow> string \<Rightarrow> string list" where
  "py_split sep [] = [[]]"
| "py_split sep (c # cs) =
     (if c = sep then [] # py_split sep cs
      else (case py_split sep cs of
              piece # pieces \<Rightarrow> (c # piece) # pieces
            | [] \<Rightarrow> [[c]]))"

text \<open>
  \<open>str.isdigit()\<close>: not empty, every character a digit. Below 256 the digits are
  0-9 and the superscripts two, three and one (0xB2, 0xB3, 0xB9).
\<close>

definition ascii_digit :: "char \<Rightarrow> bool" where
  "ascii_digit c = (let n = (of_char c :: nat) in 48 \<le> n \<and> n \<le> 57)"

definition py_isdigit_char :: "char \<Rightarrow> bool" where
  "py_isdigit_char c =
     (let n = (of_char c :: nat) in ascii_digit c \<or> n = 178 \<or> n = 179 \<or> n = 185)"

definition py_isdigit :: "string \<Rightarrow> bool" where
  "py_isdigit s = (s \<noteq> [] \<and> list_all py_isdigit_char s)"

text \<open>
  \<open>int(s)\<close> in base 10: surrounding whitespace and one sign are accepted, single
  underscores may separate groups of digits, and only 0-9 are digits; anything
  else raises ValueError. So does a string of more than 4300 digits, the sign and
  the underscores not counted (\<open>sys.int_max_str_digits\<close>, Python 3.11 and later).
\<close>

definition int_max_str_digits :: nat where
  "int_max_str_digits = 4300"

definition digit_val :: "char \<Rightarrow> int" where
  "digit_val c = int (of_char c) - 48"

definition decimal :: "string \<Rightarrow> int" where
  "decimal s = foldl (\<lambda>acc c. 10 * acc + digit_val c) 0 s"

definition py_int :: "string \<Rightarrow> py_error + int" where
  "py_int s =
     (let t = py_strip s;
          neg = (t \<noteq> [] \<and> hd t = CHR ''-'');
          body = (if t \<noteq> [] \<and> (hd t = CHR ''-'' \<or> hd t = CHR ''+'') then tl t else t);
          groups = py_split (CHR ''_'') body
      in if \<not> list_all (\<lambda>g. g \<noteq> [] \<and> list_all ascii_digit g) groups then Inl ValueError
         else if length (concat groups) > int_max_str_digits then Inl ValueError
         else Inr ((if neg then - 1 else 1) * decimal (concat groups)))"

text \<open>\<open>xs[i]\<close>: a negative index counts from the end; out of range raises IndexError.\<close>

definition py_index :: "'a list \<Rightarrow> int \<Rightarrow> py_error + 'a" where
  "py_index xs i =
     (if 0 \<le> i \<and> i < int (length xs) then Inr (xs ! nat i)
      else if i < 0 \<and> - int (length xs) \<le> i then Inr (xs ! nat (int (length xs) + i))
      else Inl IndexError)"

text \<open>A list comprehension whose element expression may raise: the first exception ends it.\<close>

fun map_raise :: "('a \<Rightarrow> py_error + 'b) \<Rightarrow> 'a list \<Rightarrow> py_error + 'b list" where
  "map_raise f [] = Inr []"
| "map_raise f (x # xs) =
     (case f x of
        Inl e \<Rightarrow> Inl e
      | Inr y \<Rightarrow> (case map_raise f xs of Inl e \<Rightarrow> Inl e | Inr ys \<Rightarrow> Inr (y # ys)))"

section \<open>Selector: select_artists\<close>

text \<open>
  \<open>select_artists(artists, allow_all)\<close> prints the menu and reads one line,
  \<open>choices\<close>, which is an argument here; the menu is output only and does not
  reach the result.
\<close>

definition selected_indices :: "string \<Rightarrow> py_error + int list" where
  "selected_indices choices =
     map_raise (\<lambda>num. case py_int (py_strip num) of Inl e \<Rightarrow> Inl e | Inr v \<Rightarrow> Inr (v - 1))
       (filter (\<lambda>num. py_isdigit (py_strip num)) (py_split (CHR '','') choices))"

definition select_artists :: "string list \<Rightarrow> bool \<Rightarrow> string \<Rightarrow> py_error + string list" where
  "select_artists artists allow_all choices =
     (if allow_all \<and> py_lower (py_strip choices) = ''all'' then Inr artists
      else case selected_indices choices of
             Inl e \<Rightarrow> Inl e
           | Inr idx \<Rightarrow> map_raise (py_index artists) (filter (\<lambda>i. i \<ge> 0) idx))"

section \<open>Artist Extractor: get_artists_with_files\<close>

definition os_sep :: char where
  "os_sep = CHR ''/''"

text \<open>The loop of \<open>get_artists_with_files\<close>, the set \<open>artists\<close> as its state.\<close>

fun artists_loop :: "string list \<Rightarrow> string set \<Rightarrow> string set" where
  "artists_loop [] artists = artists"
| "artists_loop (file # files) artists =
     (let parts = py_split os_sep file
      in if length parts > 5 then artists_loop files (insert (parts ! 5) artists)
         else artists_loop files artists)"

text \<open>
  \<open>list(artists)\<close> lists each element of the set once, in an order the language
  does not fix: \<open>get_artists_with_files files result\<close> holds for every list the
  function may return.
\<close>

definition get_artists_with_files :: "string list \<Rightarrow> string list \<Rightarrow> bool" where
  "get_artists_with_files files result =
     (distinct result \<and> set result = artists_loop files {})"

section \<open>Paths\<close>

text \<open>\<open>a in b\<close> on strings is \<open>sublist a b\<close>, \<open>b.startswith(a)\<close> is \<open>prefix a b\<close> and
  \<open>b.endswith(a)\<close> is \<open>suffix a b\<close>.\<close>

text \<open>\<open>os.path.join(a, b)\<close> of posixpath, for two arguments.\<close>

definition os_path_join :: "string \<Rightarrow> string \<Rightarrow> string" where
  "os_path_join a b =
     (if prefix ''/'' b then b
      else if a = [] \<or> suffix ''/'' a then a @ b
      else a @ ''/'' @ b)"

definition music_dir :: string where
  "music_dir = ''/Volumes/Media/Music''"

definition flac_converted_dir :: string where
  "flac_converted_dir = os_path_join music_dir ''FLAC_CONVERTED''"


text \<open>
  \<open>str.replace(old, new)\<close>: the occurrences of \<open>old\<close> are replaced from the left,
  none overlapping another; an empty \<open>old\<close> matches before every character and at
  the end.
\<close>

function py_replace :: "string \<Rightarrow> string \<Rightarrow> string \<Rightarrow> string" where
  "py_replace old new s =
     (if old = [] then new @ concat (map (\<lambda>c. c # new) s)
      else if s = [] then []
      else if prefix old s then new @ py_replace old new (drop (length old) s)
      else hd s # py_replace old new (tl s))"
  by pat_completeness auto
termination
  by (relation "measure (\<lambda>(old, new, s). length s)") auto

declare py_replace.simps [simp del]

text \<open>Line 96 of music.py: the path the converted file is written to.\<close>

definition output_file_of :: "string \<Rightarrow> string" where
  "output_file_of file = py_replace ''.m4a'' ''.mp3'' (py_replace ''.flac'' ''.mp3'' file)"

section \<open>Indexer: index_music_files\<close>







section \<open>Paths of the File Relocator\<close>

text \<open>\<open>os.path.split(p)\<close>: the part up to the last separator, its trailing separators
  dropped unless it holds nothing else, and the part after it.\<close>

definition os_path_split :: "string \<Rightarrow> string \<times> string" where
  "os_path_split p =
     (let tail = rev (takeWhile (\<lambda>c. c \<noteq> os_sep) (rev p));
          head = rev (dropWhile (\<lambda>c. c \<noteq> os_sep) (rev p))
      in (if head \<noteq> [] \<and> \<not> list_all (\<lambda>c. c = os_sep) head
          then rev (dropWhile (\<lambda>c. c = os_sep) (rev head)) else head, tail))"

definition os_path_dirname :: "string \<Rightarrow> string" where
  "os_path_dirname p = fst (os_path_split p)"

definition os_path_basename :: "string \<Rightarrow> string" where
  "os_path_basename p = snd (os_path_split p)"

text \<open>The components of \<open>os.path.abspath(p)\<close>: \<open>p\<close> is joined to the working directory
  unless it is absolute, empty and \<open>.\<close> components go, and \<open>..\<close> removes the component
  before it.\<close>

definition normpath_step :: "string list \<Rightarrow> string \<Rightarrow> string list" where
  "normpath_step comps c =
     (if c = [] \<or> c = ''.'' then comps
      else if c = ''..'' then butlast comps
      else comps @ [c])"

definition abspath_list :: "string \<Rightarrow> string \<Rightarrow> string list" where
  "abspath_list cwd p =
     foldl normpath_step [] (py_split os_sep (if prefix ''/'' p then p else os_path_join cwd p))"

text \<open>\<open>os.path.relpath(path, start)\<close>; an empty \<open>path\<close> raises ValueError.\<close>

definition os_path_relpath :: "string \<Rightarrow> string \<Rightarrow> string \<Rightarrow> py_error + string" where
  "os_path_relpath cwd path start =
     (if path = [] then Inl ValueError
      else let start_list = abspath_list cwd start;
               path_list = abspath_list cwd path;
               i = length (longest_common_prefix start_list path_list);
               rel_list = replicate (length start_list - i) ''..'' @ drop i path_list
           in if rel_list = [] then Inr ''.''
              else Inr (foldl os_path_join (hd rel_list) (tl rel_list)))"

section \<open>The file system, the transcoder and the logs\<close>

text \<open>
  What the run writes, one constructor for each formatted string of music.py; the
  flag of \<open>Converted\<close> and \<open>FailedToConvert\<close> is \<open>dry_run\<close>, which puts \<open>[DRY RUN]\<close> in
  front. The \<open>MB\<close> messages carry the number of bytes that is printed divided by
  1024*1024 with two decimals.
\<close>

datatype message =
    DryRunWouldConvert string string
  | ErrorConverting string "string list" int
  | DryRunWouldMove string string
  | Converted bool string string
  | FailedToConvert bool string
  | TotalOriginalMB int
  | TotalConvertedMB int
  | SpaceSavedMB int
  | TotalOriginalBytes int
  | TotalConvertedBytes int
  | SpaceSavedBytes int

text \<open>
  What the run does to the world, in order: \<open>logging.info\<close> and \<open>logging.error\<close>
  (music_conversion.log), \<open>error_logger.error\<close> (music_conversion_errors.log),
  \<open>print\<close>, \<open>subprocess.run\<close>, \<open>os.makedirs\<close> and \<open>shutil.move\<close>.
\<close>

datatype event =
    LogInfo message
  | LogError message
  | ErrorLoggerError message
  | Print message
  | Subprocess "string list"
  | Makedirs string
  | Move string string

text \<open>
  The world: the regular files with their sizes in bytes, the directories, the size
  the file system reports for a directory (it is the file system's own matter and may
  depend on what the file system holds), the working directory and the events so
  far. A file or a directory is known by its path as written.
\<close>

record world =
  fs_files :: "string \<rightharpoonup> nat"
  fs_dirs :: "string set"
  fs_dir_size :: "(string \<rightharpoonup> nat) \<Rightarrow> string set \<Rightarrow> string \<Rightarrow> nat"
  fs_cwd :: string
  trace :: "event list"

definition emit :: "event list \<Rightarrow> world \<Rightarrow> world" where
  "emit evs w = w\<lparr>trace := trace w @ evs\<rparr>"

text \<open>
  The transcoder is not part of the program. A run of it either cannot be started
  (no such executable) or exits with a return code, having written its output file
  with some size or nothing.
\<close>

datatype run_result = CannotExecute | Exited int "nat option"

type_synonym transcoder = "(string \<rightharpoonup> nat) \<Rightarrow> string \<Rightarrow> string \<Rightarrow> run_result"

text \<open>\<open>calculate_size(file)\<close>: \<open>os.path.getsize\<close>, the size of a regular file or of a
  directory; a path that names neither raises.\<close>

definition calculate_size :: "world \<Rightarrow> string \<Rightarrow> py_error + nat" where
  "calculate_size w file =
     (case fs_files w file of
        Some n \<Rightarrow> Inr n
      | None \<Rightarrow>
          if file \<in> fs_dirs w then Inr (fs_dir_size w (fs_files w) (fs_dirs w) file)
          else Inl FileNotFoundError)"

text \<open>The directory and its ancestors, outermost first; the number bounds the climb.\<close>

fun ancestors :: "nat \<Rightarrow> string \<Rightarrow> string list" where
  "ancestors 0 p = [p]"
| "ancestors (Suc n) p =
     (if os_path_dirname p = [] \<or> os_path_dirname p = p then [p]
      else ancestors n (os_path_dirname p) @ [p])"

text \<open>\<open>os.makedirs(name, exist_ok=True)\<close>: the directory and its missing ancestors are
  created; a regular file in the way raises.\<close>

definition os_makedirs :: "world \<Rightarrow> string \<Rightarrow> py_error + world" where
  "os_makedirs w name =
     (if name = [] then Inl FileNotFoundError
      else if list_ex (\<lambda>d. fs_files w d \<noteq> None) (ancestors (length name) name) then Inl OSError
      else Inr (w\<lparr>fs_dirs := fs_dirs w \<union> set (ancestors (length name) name)\<rparr>))"

text \<open>\<open>_basename(path)\<close> of shutil: the basename, trailing separators left aside.\<close>

definition shutil_basename :: "string \<Rightarrow> string" where
  "shutil_basename p = os_path_basename (rev (dropWhile (\<lambda>c. c = os_sep) (rev p)))"

text \<open>The path \<open>p\<close> is the directory \<open>d\<close> or lies beneath it.\<close>

definition beneath :: "string \<Rightarrow> string \<Rightarrow> bool" where
  "beneath d p = (p = d \<or> prefix (d @ [os_sep]) p)"

text \<open>\<open>os.rename(src, dst)\<close> of a directory onto a free path: what was at \<open>src\<close> and
  beneath it is then at \<open>dst\<close> and beneath it.\<close>

definition rename_dir :: "world \<Rightarrow> string \<Rightarrow> string \<Rightarrow> world" where
  "rename_dir w src dst =
     w\<lparr>fs_files :=
         (\<lambda>p. if beneath dst p then fs_files w (src @ drop (length dst) p)
              else if beneath src p then None
              else fs_files w p),
       fs_dirs :=
         {p \<in> fs_dirs w. \<not> beneath src p}
           \<union> (\<lambda>p. dst @ drop (length src) p) ` {p \<in> fs_dirs w. beneath src p}\<rparr>"

text \<open>
  \<open>shutil.move(src, dst)\<close>. When \<open>dst\<close> is a directory the target is \<open>dst\<close> joined with
  the basename of \<open>src\<close>, which must be free (\<open>shutil.Error\<close>, an OSError, otherwise);
  a directory moved onto itself stays. A regular file is renamed onto the target and
  replaces a file that is there; the directory that is to hold the target must be
  there (NotADirectoryError, an OSError, when a regular file is in its place). A
  directory is renamed to the target, which may be neither a file nor a path
  beneath the directory itself; when the directory that is to hold the target is
  missing, the fallback of \<open>shutil.move\<close>, \<open>copytree\<close> and \<open>rmtree\<close>, creates it.
\<close>

definition shutil_move :: "world \<Rightarrow> string \<Rightarrow> string \<Rightarrow> py_error + world" where
  "shutil_move w src dst =
     (if dst \<in> fs_dirs w \<and> src = dst then Inr w
      else
        let real_dst = (if dst \<in> fs_dirs w then os_path_join dst (shutil_basename src) else dst)
        in if dst \<in> fs_dirs w \<and> (real_dst \<in> fs_dirs w \<or> fs_files w real_dst \<noteq> None)
           then Inl OSError
           else
             (case fs_files w src of
                Some n \<Rightarrow>
                  if os_path_dirname real_dst = [] \<or> os_path_dirname real_dst \<in> fs_dirs w
                  then Inr (w\<lparr>fs_files := ((fs_files w)(src := None))(real_dst \<mapsto> n)\<rparr>)
                  else if list_ex (\<lambda>d. fs_files w d \<noteq> None)
                            (ancestors (length real_dst) (os_path_dirname real_dst))
                  then Inl OSError
                  else Inl FileNotFoundError
              | None \<Rightarrow>
                  if src \<notin> fs_dirs w then Inl FileNotFoundError
                  else if beneath src real_dst \<or> fs_files w real_dst \<noteq> None then Inl OSError
                  else if os_path_dirname real_dst = [] \<or> os_path_dirname real_dst \<in> fs_dirs w
                  then Inr (rename_dir w src real_dst)
                  else
                    (case os_makedirs w (os_path_dirname real_dst) of
                       Inl e \<Rightarrow> Inl e
                     | Inr w1 \<Rightarrow> Inr (rename_dir w1 src real_dst))))"

section \<open>Converter: convert_file\<close>

definition ffmpeg_command :: "string \<Rightarrow> string \<Rightarrow> string list" where
  "ffmpeg_command input_file output_file =
     [''ffmpeg'', ''-i'', input_file, ''-b:a'', ''320k'', output_file]"

text \<open>
  \<open>convert_file(input_file, output_file, dry_run)\<close>. Only CalledProcessError is
  caught: a transcoder that cannot be started raises out of the function.
\<close>

definition convert_file ::
  "transcoder \<Rightarrow> world \<Rightarrow> string \<Rightarrow> string \<Rightarrow> bool \<Rightarrow> (py_error + bool) \<times> world" where
  "convert_file ffmpeg w input_file output_file dry_run =
     (if dry_run
      then (Inr True, emit [LogInfo (DryRunWouldConvert input_file output_file)] w)
      else
        (case ffmpeg (fs_files w) input_file output_file of
           CannotExecute \<Rightarrow>
             (Inl FileNotFoundError,
              emit [Subprocess (ffmpeg_command input_file output_file)] w)
         | Exited returncode written \<Rightarrow>
             (let w1 = emit [Subprocess (ffmpeg_command input_file output_file)]
                        (w\<lparr>fs_files :=
                            (case written of
                               None \<Rightarrow> fs_files w
                             | Some n \<Rightarrow> (fs_files w)(output_file \<mapsto> n))\<rparr>)
              in if returncode \<noteq> 0
                 then (Inr False,
                       emit [ErrorLoggerError
                               (ErrorConverting input_file
                                  (ffmpeg_command input_file output_file) returncode)] w1)
                 else (Inr True, w1))))"

section \<open>File Relocator and Run Report: process_files\<close>

text \<open>
  The body of the loop of \<open>process_files\<close> for one file. The state is the world
  with \<open>total_original_size\<close> and \<open>total_converted_size\<close>; an exception leaves the
  loop with the world as it then is.
\<close>

definition process_file ::
  "transcoder \<Rightarrow> string \<Rightarrow> string list \<Rightarrow> string \<Rightarrow> bool \<Rightarrow> world \<times> int \<times> int
    \<Rightarrow> py_error \<times> world + world \<times> int \<times> int" where
  "process_file ffmpeg file convert_artists converted_dir dry_run st =
     (case st of (w, total_original_size, total_converted_size) \<Rightarrow>
      if length (py_split os_sep file) > 5 \<and> py_split os_sep file ! 5 \<in> set convert_artists
      then
        (case calculate_size w file of
           Inl e \<Rightarrow> Inl (e, w)
         | Inr original_size \<Rightarrow>
            (case convert_file ffmpeg w file (output_file_of file) dry_run of
               (Inl e, w1) \<Rightarrow> Inl (e, w1)
             | (Inr False, w1) \<Rightarrow>
                 Inr (emit [LogError (FailedToConvert dry_run file)] w1,
                      total_original_size + int original_size, total_converted_size)
             | (Inr True, w1) \<Rightarrow>
                (case os_path_relpath (fs_cwd w1) file music_dir of
                   Inl e \<Rightarrow> Inl (e, w1)
                 | Inr rel \<Rightarrow>
                    (case os_makedirs
                            (emit [Makedirs (os_path_dirname (os_path_join converted_dir rel))] w1)
                            (os_path_dirname (os_path_join converted_dir rel)) of
                       Inl e \<Rightarrow>
                         Inl (e, emit [Makedirs (os_path_dirname (os_path_join converted_dir rel))] w1)
                     | Inr w2 \<Rightarrow>
                        if dry_run
                        then Inr (emit [LogInfo (DryRunWouldMove file (os_path_join converted_dir rel)),
                                        LogInfo (Converted dry_run file (output_file_of file))] w2,
                                  total_original_size + int original_size, total_converted_size)
                        else
                          (case shutil_move
                                  (emit [Move file (os_path_join converted_dir rel)] w2)
                                  file (os_path_join converted_dir rel) of
                             Inl e \<Rightarrow> Inl (e, emit [Move file (os_path_join converted_dir rel)] w2)
                           | Inr w3 \<Rightarrow>
                              (case calculate_size w3 (output_file_of file) of
                                 Inl e \<Rightarrow> Inl (e, w3)
                               | Inr converted_size \<Rightarrow>
                                   Inr (emit [LogInfo (Converted dry_run file (output_file_of file))] w3,
                                        total_original_size + int original_size,
                                        total_converted_size + int converted_size)))))))
      else Inr st)"

fun process_loop ::
  "transcoder \<Rightarrow> string list \<Rightarrow> string list \<Rightarrow> string \<Rightarrow> bool \<Rightarrow> world \<times> int \<times> int
    \<Rightarrow> py_error \<times> world + world \<times> int \<times> int" where
  "process_loop ffmpeg [] convert_artists converted_dir dry_run st = Inr st"
| "process_loop ffmpeg (file # files) convert_artists converted_dir dry_run st =
     (case process_file ffmpeg file convert_artists converted_dir dry_run st of
        Inl ew \<Rightarrow> Inl ew
      | Inr st' \<Rightarrow> process_loop ffmpeg files convert_artists converted_dir dry_run st')"

text \<open>\<open>process_files(files, convert_artists, converted_dir, dry_run)\<close>: the loop, then the
  report unless \<open>dry_run\<close>.\<close>

definition process_files ::
  "transcoder \<Rightarrow> string list \<Rightarrow> string list \<Rightarrow> string \<Rightarrow> bool \<Rightarrow> world
    \<Rightarrow> py_error \<times> world + world" where
  "process_files ffmpeg files convert_artists converted_dir dry_run w =
     (case process_loop ffmpeg files convert_artists converted_dir dry_run (w, 0, 0) of
        Inl ew \<Rightarrow> Inl ew
      | Inr (w', total_original_size, total_converted_size) \<Rightarrow>
          if \<not> dry_run
          then Inr (emit [Print (TotalOriginalMB total_original_size),
                          Print (TotalConvertedMB total_converted_size),
                          Print (SpaceSavedMB (total_original_size - total_converted_size)),
                          LogInfo (TotalOriginalBytes total_original_size),
                          LogInfo (TotalConvertedBytes total_converted_size),
                          LogInfo (SpaceSavedBytes (total_original_size - total_converted_size))] w')
          else Inr w')"

section \<open>The Run Report, as the specification words it\<close>

text \<open>
  Conversion of a file is attempted when its path has a segment at index 5 that is
  among the selected artists; it succeeds when the transcoder exits with code 0.
\<close>

definition attempted :: "string list \<Rightarrow> string \<Rightarrow> bool" where
  "attempted convert_artists file =
     (5 < length (py_split os_sep file) \<and> py_split os_sep file ! 5 \<in> set convert_artists)"

definition exit_zero :: "transcoder \<Rightarrow> world \<Rightarrow> string \<Rightarrow> bool" where
  "exit_zero ffmpeg w file =
     (case ffmpeg (fs_files w) file (output_file_of file) of
        CannotExecute \<Rightarrow> False
      | Exited returncode written \<Rightarrow> returncode = 0)"

definition size_in :: "world \<Rightarrow> string \<Rightarrow> int" where
  "size_in w p = (case calculate_size w p of Inl e \<Rightarrow> 0 | Inr n \<Rightarrow> int n)"

text \<open>
  The two sums of the report over a batch outside dry-run: the size of the original
  of every file whose conversion is attempted, as the file is when its turn comes,
  and the size of the converted file of every attempt that succeeded, as it is when
  that file is done. Each file meets the world the files before it left.
\<close>

fun report_sums ::
  "transcoder \<Rightarrow> string list \<Rightarrow> string list \<Rightarrow> string \<Rightarrow> world \<Rightarrow> int \<times> int" where
  "report_sums ffmpeg [] convert_artists converted_dir w = (0, 0)"
| "report_sums ffmpeg (file # files) convert_artists converted_dir w =
     (case process_file ffmpeg file convert_artists converted_dir False (w, 0, 0) of
        Inl ew \<Rightarrow> (0, 0)
      | Inr (w', t_o, t_c) \<Rightarrow>
          (case report_sums ffmpeg files convert_artists converted_dir w' of
             (original, converted) \<Rightarrow>
               ((if attempted convert_artists file then size_in w file else 0) + original,
                (if attempted convert_artists file \<and> exit_zero ffmpeg w file
                 then size_in w' (output_file_of file) else 0) + converted)))"

text \<open>The events of the report: what is printed, and the three totals logged.\<close>

fun is_report :: "event \<Rightarrow> bool" where
  "is_report (Print m) = True"
| "is_report (LogInfo (TotalOriginalBytes n)) = True"
| "is_report (LogInfo (TotalConvertedBytes n)) = True"
| "is_report (LogInfo (SpaceSavedBytes n)) = True"
| "is_report e = False"

section \<open>The paths the processing of a file may change\<close>



section \<open>Example worlds\<close>


definition track :: string where
  "track = ''/Volumes/Media/Music/lib/Abba/Arrival/01.flac''"

definition track_mp3 :: string where
  "track_mp3 = ''/Volumes/Media/Music/lib/Abba/Arrival/01.mp3''"

definition track_moved :: string where
  "track_moved = ''/Volumes/Media/Music/FLAC_CONVERTED/lib/Abba/Arrival/01.flac''"

text \<open>One track of 3000 bytes in the library, and the converted directories empty.\<close>

definition example_world :: world where
  "example_world =
     \<lparr>fs_files = [track \<mapsto> 3000],
      fs_dirs = {''/'', ''/Volumes'', ''/Volumes/Media'', ''/Volumes/Media/Music'',
                 ''/Volumes/Media/Music/FLAC_CONVERTED'', ''/Volumes/Media/Music/M4A_CONVERTED'',
                 ''/Volumes/Media/Music/lib'', ''/Volumes/Media/Music/lib/Abba'',
                 ''/Volumes/Media/Music/lib/Abba/Arrival''},
      fs_dir_size = (\<lambda>files dirs p. 4096),
      fs_cwd = ''/'',
      trace = []\<rparr>"

text \<open>Transcoders: one that writes 1000 bytes, one whose output is larger than any
  original here, and one that exits with code 1 and writes nothing.\<close>

definition ffmpeg_ok :: transcoder where
  "ffmpeg_ok fs input_file output_file = Exited 0 (Some 1000)"

definition ffmpeg_grows :: transcoder where
  "ffmpeg_grows fs input_file output_file = Exited 0 (Some 5000)"

definition ffmpeg_fails :: transcoder where
  "ffmpeg_fails fs input_file output_file = Exited 1 None"







text \<open>A track in a directory whose name holds \<open>.flac\<close>.\<close>

definition gold_track :: string where
  "gold_track = ''/Volumes/Media/Music/lib/Abba/Gold.flac/01.flac''"


section \<open>Properties of the Selector\<close>

lemma py_split_no_sep: "sep \<notin> set s \<Longrightarrow> py_split sep s = [s]"
  by (induction s) auto

lemma py_strip_covers: "c \<in> set s \<Longrightarrow> py_isspace c \<or> c \<in> set (py_strip s)"
proof -
  assume c: "c \<in> set s"
  have s: "set s = set (takeWhile py_isspace s) \<union> set (dropWhile py_isspace s)"
    by (metis set_append takeWhile_dropWhile_id)
  let ?d = "rev (dropWhile py_isspace s)"
  have d: "set ?d = set (takeWhile py_isspace ?d) \<union> set (dropWhile py_isspace ?d)"
    by (metis set_append takeWhile_dropWhile_id)
  have t: "\<And>x xs. x \<in> set (takeWhile py_isspace xs) \<Longrightarrow> py_isspace x"
    by (meson set_takeWhileD)
  from c s d t show ?thesis
    unfolding py_strip_def by (metis Un_iff set_rev)
qed

lemma lower_a_or_l:
  "py_lower_char c = CHR ''a'' \<or> py_lower_char c = CHR ''l'' \<Longrightarrow>
     c \<noteq> CHR '','' \<and> \<not> py_isspace c \<and> \<not> py_isdigit_char c"
  by (auto simp: py_lower_char_def py_isspace_def py_isdigit_char_def ascii_digit_def Let_def
      split: if_splits)

lemma all_token:
  assumes "py_lower (py_strip choices) = ''all''"
  shows "CHR '','' \<notin> set choices" and "\<not> py_isdigit (py_strip choices)"
proof -
  have "map py_lower_char (py_strip choices) = ''all''"
    using assms by (simp add: py_lower_def)
  then obtain a b c where abc: "py_strip choices = [a, b, c]"
    and l: "py_lower_char a = CHR ''a''" "py_lower_char b = CHR ''l''"
      "py_lower_char c = CHR ''l''"
    by (auto simp: map_eq_Cons_conv)
  show "\<not> py_isdigit (py_strip choices)"
    using abc l lower_a_or_l[of a] by (simp add: py_isdigit_def)
  show "CHR '','' \<notin> set choices"
  proof
    assume "CHR '','' \<in> set choices"
    then have "py_isspace (CHR '','') \<or> CHR '','' \<in> set (py_strip choices)"
      by (rule py_strip_covers)
    then show False
      using abc l lower_a_or_l[of a] lower_a_or_l[of b] lower_a_or_l[of c]
      by (auto simp: py_isspace_def)
  qed
qed

lemmas selector_eval =
  select_artists_def selected_indices_def py_strip_def py_isspace_def py_isdigit_def
  py_isdigit_char_def ascii_digit_def py_int_def int_max_str_digits_def py_index_def
  decimal_def digit_val_def
  py_lower_def py_lower_char_def

text \<open>
  C1. The claim: for every artist list and every input line the Selector returns a
  subset without raising, and \<open>"0,2,5"\<close> against three artists returns the artist at
  menu position 2. The code: the token \<open>5\<close> becomes the index 4, which passes the
  test \<open>i >= 0\<close>, and \<open>artists[4]\<close> raises IndexError; the call returns nothing.
\<close>

theorem select_artists_index_out_of_range:
  "select_artists [''A'', ''B'', ''C''] False ''0,2,5'' = Inl IndexError"
  by (simp add: selector_eval)

text \<open>
  C8. With the "all" shortcut enabled, an input that is \<open>all\<close> once stripped and
  lower-cased selects the whole artist list, unchanged and in order; with the
  shortcut disabled the same input selects nothing.
\<close>

theorem select_artists_all:
  assumes "py_lower (py_strip choices) = ''all''"
  shows "select_artists artists True choices = Inr artists
    \<and> select_artists artists False choices = Inr []"
proof -
  have enabled: "select_artists artists True choices = Inr artists"
    using assms by (simp add: select_artists_def)
  have "py_split (CHR '','') choices = [choices]"
    using all_token(1)[OF assms] by (rule py_split_no_sep)
  then have "select_artists artists False choices = Inr []"
    using all_token(2)[OF assms] by (simp add: select_artists_def selected_indices_def)
  with enabled show ?thesis by simp
qed

theorem select_artists_all_witness:
  "py_lower (py_strip ''  ALL '') = ''all''
    \<and> select_artists [''Abba'', ''Beck''] True ''  ALL '' = Inr [''Abba'', ''Beck'']
    \<and> select_artists [''Abba'', ''Beck''] False ''  ALL '' = Inr []"
proof -
  have h: "py_lower (py_strip ''  ALL '') = ''all''"
    by code_simp
  show ?thesis
    using h select_artists_all[OF h, of "[''Abba'', ''Beck'']"] by simp
qed

section \<open>Properties of the Artist Extractor\<close>

lemma artists_loop_eq:
  "artists_loop files A =
     A \<union> {py_split os_sep f ! 5 |f. f \<in> set files \<and> 5 < length (py_split os_sep f)}"
  by (induction files arbitrary: A) (auto simp: Let_def)


text \<open>
  C7. Every list the Artist Extractor may return has no duplicates, and its
  elements are exactly the segments at index 5 of the paths that split into 6 or
  more segments; a path of fewer segments gives no identity. Such a list exists
  for every sequence of paths.
\<close>

theorem get_artists_with_files_identities:
  "(\<exists>result. get_artists_with_files files result) \<and>
   (\<forall>result. get_artists_with_files files result \<longrightarrow>
      distinct result \<and>
      (\<forall>a. a \<in> set result \<longleftrightarrow>
         (\<exists>f. f \<in> set files \<and> 6 \<le> length (py_split os_sep f) \<and> a = py_split os_sep f ! 5)))"
proof (intro conjI allI impI)
  have "finite (artists_loop files {})"
    by (simp add: artists_loop_eq)
  then obtain xs where "set xs = artists_loop files {}" "distinct xs"
    using finite_distinct_list by blast
  then show "\<exists>result. get_artists_with_files files result"
    unfolding get_artists_with_files_def by blast
next
  fix result assume "get_artists_with_files files result"
  then show "distinct result"
    by (simp add: get_artists_with_files_def)
next
  fix result a assume "get_artists_with_files files result"
  then have "set result = artists_loop files {}"
    by (simp add: get_artists_with_files_def)
  then have "a \<in> set result \<longleftrightarrow>
      (\<exists>f. f \<in> set files \<and> 5 < length (py_split os_sep f) \<and> a = py_split os_sep f ! 5)"
    unfolding artists_loop_eq by blast
  moreover have "\<And>n::nat. (6 \<le> n) = (5 < n)" by arith
  ultimately show "a \<in> set result \<longleftrightarrow>
      (\<exists>f. f \<in> set files \<and> 6 \<le> length (py_split os_sep f) \<and> a = py_split os_sep f ! 5)"
    by simp
qed

theorem get_artists_with_files_identities_witness:
  "get_artists_with_files
     [''/Volumes/Media/Music/lib/Abba/Arrival/01.flac'', ''/Volumes/Media/Music/x.flac'',
      ''/Volumes/Media/Music/lib/Abba/Waterloo/02.flac'']
     [''Abba'']
   \<and> distinct [''Abba'']"
proof -
  let ?files = "[''/Volumes/Media/Music/lib/Abba/Arrival/01.flac'',
    ''/Volumes/Media/Music/x.flac'', ''/Volumes/Media/Music/lib/Abba/Waterloo/02.flac'']"
  have h: "get_artists_with_files ?files [''Abba'']"
    by (simp add: get_artists_with_files_def os_sep_def)
  from get_artists_with_files_identities[of ?files] h
  have "distinct [''Abba'']" by (elim conjE allE[of _ "[''Abba'']"] impE) 
  with h show ?thesis by simp
qed

section \<open>Properties of the Indexer\<close>













section \<open>Properties of the output path\<close>

lemma py_replace_absent:
  "old \<noteq> [] \<Longrightarrow> \<not> sublist old s \<Longrightarrow> py_replace old new s = s"
proof (induction s)
  case Nil
  then show ?case by (simp add: py_replace.simps)
next
  case (Cons c cs)
  have np: "\<not> prefix old (c # cs)"
    using Cons.prems(2) prefix_imp_sublist by blast
  have "\<not> sublist old cs"
    using Cons.prems(2) by (meson sublist_Cons_right)
  with Cons have "py_replace old new cs = cs" by simp
  with np Cons.prems(1) show ?case
    by (subst py_replace.simps) simp
qed

lemma proper_suffix_hd:
  assumes "old = xs @ us" "xs \<noteq> []" "us \<noteq> []"
  shows "hd us \<in> set (tl old)"
proof -
  from assms obtain x xs' where "xs = x # xs'" by (cases xs) auto
  with assms show ?thesis by (cases us) auto
qed

lemma py_replace_at_end:
  assumes "old \<noteq> []" "hd old \<notin> set (tl old)" "\<not> sublist old s"
  shows "py_replace old new (s @ old) = s @ new"
  using assms(3)
proof (induction s)
  case Nil
  have e: "py_replace old new [] = []"
    using assms(1) by (subst py_replace.simps) simp
  have "py_replace old new old = new @ py_replace old new (drop (length old) old)"
    using assms(1) by (subst py_replace.simps) simp
  with e show ?case by simp
next
  case (Cons c cs)
  have ns: "\<not> sublist old cs"
    using Cons.prems by (meson sublist_Cons_right)
  have np: "\<not> prefix old ((c # cs) @ old)"
  proof
    assume "prefix old ((c # cs) @ old)"
    then have "prefix old (c # cs) \<or> (\<exists>us. old = (c # cs) @ us \<and> prefix us old)"
      using prefix_append[of old "c # cs" old] by blast
    then consider "prefix old (c # cs)" | us where "old = (c # cs) @ us" "prefix us old"
      by blast
    then show False
    proof cases
      case 1
      then show False using Cons.prems prefix_imp_sublist by blast
    next
      case 2
      show False
      proof (cases "us = []")
        case True
        with 2 have "old = c # cs" by simp
        then show False using Cons.prems by simp
      next
        case False
        from proper_suffix_hd[OF 2(1) _ False] have "hd us \<in> set (tl old)" by simp
        moreover from 2(2) False have "hd us = hd old"
          by (cases us; cases old) auto
        ultimately show False using assms(2) by simp
      qed
    qed
  qed
  from np assms(1) have "py_replace old new ((c # cs) @ old) = c # py_replace old new (cs @ old)"
    by (subst py_replace.simps) simp
  with Cons.IH[OF ns] show ?case by simp
qed

lemma no_straddle:
  assumes "t \<noteq> []" "hd t \<notin> set (tl old)" "\<not> sublist old s" "\<not> sublist old t"
  shows "\<not> sublist old (s @ t)"
proof
  assume "sublist old (s @ t)"
  then obtain xs1 xs2 where x: "old = xs1 @ xs2" "suffix xs1 s" "prefix xs2 t"
    using assms(3,4) by (auto simp: sublist_append)
  have "xs1 \<noteq> []"
    using x assms(4) prefix_imp_sublist by fastforce
  moreover have "xs2 \<noteq> []"
    using x assms(3) suffix_imp_sublist by fastforce
  ultimately have "hd xs2 \<in> set (tl old)"
    using proper_suffix_hd[OF x(1)] by simp
  moreover have "hd xs2 = hd t"
    using x(3) \<open>xs2 \<noteq> []\<close> assms(1) by (cases xs2; cases t) auto
  ultimately show False using assms(2) by simp
qed

lemma output_file_of_flac:
  assumes "\<not> sublist ''.flac'' stem" "\<not> sublist ''.m4a'' stem"
  shows "output_file_of (stem @ ''.flac'') = stem @ ''.mp3''"
proof -
  have 1: "py_replace ''.flac'' ''.mp3'' (stem @ ''.flac'') = stem @ ''.mp3''"
    using assms(1) by (intro py_replace_at_end) simp_all
  have "\<not> sublist ''.m4a'' (stem @ ''.mp3'')"
    using assms(2) by (intro no_straddle) (simp_all add: sublist_code)
  then have "py_replace ''.m4a'' ''.mp3'' (stem @ ''.mp3'') = stem @ ''.mp3''"
    by (intro py_replace_absent) simp_all
  with 1 show ?thesis by (simp add: output_file_of_def)
qed

lemma output_file_of_m4a:
  assumes "\<not> sublist ''.flac'' stem" "\<not> sublist ''.m4a'' stem"
  shows "output_file_of (stem @ ''.m4a'') = stem @ ''.mp3''"
proof -
  have "\<not> sublist ''.flac'' (stem @ ''.m4a'')"
    using assms(1) by (intro no_straddle) (simp_all add: sublist_code)
  then have 1: "py_replace ''.flac'' ''.mp3'' (stem @ ''.m4a'') = stem @ ''.m4a''"
    by (intro py_replace_absent) simp_all
  have "py_replace ''.m4a'' ''.mp3'' (stem @ ''.m4a'') = stem @ ''.mp3''"
    using assms(2) by (intro py_replace_at_end) simp_all
  with 1 show ?thesis by (simp add: output_file_of_def)
qed

lemma os_path_split_ext:
  assumes "os_sep \<notin> set ext"
  shows "fst (os_path_split (stem @ ext)) = fst (os_path_split stem)"
proof -
  have "dropWhile (\<lambda>c. c \<noteq> os_sep) (rev ext @ rev stem) = dropWhile (\<lambda>c. c \<noteq> os_sep) (rev stem)"
    using assms by (intro dropWhile_append2) auto
  then show ?thesis by (simp add: os_path_split_def Let_def)
qed

section \<open>Properties of process_files\<close>

lemma emit_simps [simp]:
  "fs_files (emit evs w) = fs_files w"
  "fs_dirs (emit evs w) = fs_dirs w"
  "fs_dir_size (emit evs w) = fs_dir_size w"
  "fs_cwd (emit evs w) = fs_cwd w"
  "trace (emit evs w) = trace w @ evs"
  by (simp_all add: emit_def)

lemma calculate_size_emit [simp]:
  "calculate_size (emit evs w) p = calculate_size w p"
  by (simp add: calculate_size_def split: option.split)

lemma process_file_skip:
  "\<not> (5 < length (py_split os_sep file) \<and> py_split os_sep file ! 5 \<in> set convert_artists) \<Longrightarrow>
     process_file ffmpeg file convert_artists converted_dir dry_run st = Inr st"
  by (cases st) (auto simp: process_file_def)

lemma process_file_cases:
  assumes "process_file ffmpeg file artists cdir dry (w, t_o, t_c) = Inr (w', t_o', t_c')"
  obtains
    (skip) "\<not> (5 < length (py_split os_sep file) \<and> py_split os_sep file ! 5 \<in> set artists)"
      "w' = w" "t_o' = t_o" "t_c' = t_c"
  | (failed) n rc wr where
      "5 < length (py_split os_sep file)" "py_split os_sep file ! 5 \<in> set artists"
      "calculate_size w file = Inr n" "\<not> dry"
      "ffmpeg (fs_files w) file (output_file_of file) = Exited rc wr" "rc \<noteq> 0"
      "w' = emit [LogError (FailedToConvert dry file)]
             (emit [ErrorLoggerError (ErrorConverting file
                      (ffmpeg_command file (output_file_of file)) rc)]
               (emit [Subprocess (ffmpeg_command file (output_file_of file))]
                 (w\<lparr>fs_files := (case wr of None \<Rightarrow> fs_files w
                                   | Some k \<Rightarrow> (fs_files w)(output_file_of file \<mapsto> k))\<rparr>)))"
      "t_o' = t_o + int n" "t_c' = t_c"
  | (dry) n rel w2 where
      "5 < length (py_split os_sep file)" "py_split os_sep file ! 5 \<in> set artists"
      "calculate_size w file = Inr n" "dry"
      "os_path_relpath (fs_cwd w) file music_dir = Inr rel"
      "os_makedirs (emit [Makedirs (os_path_dirname (os_path_join cdir rel))]
                     (emit [LogInfo (DryRunWouldConvert file (output_file_of file))] w))
                   (os_path_dirname (os_path_join cdir rel)) = Inr w2"
      "w' = emit [LogInfo (DryRunWouldMove file (os_path_join cdir rel)),
                  LogInfo (Converted dry file (output_file_of file))] w2"
      "t_o' = t_o + int n" "t_c' = t_c"
  | (moved) n wr rel w2 w3 m where
      "5 < length (py_split os_sep file)" "py_split os_sep file ! 5 \<in> set artists"
      "calculate_size w file = Inr n" "\<not> dry"
      "ffmpeg (fs_files w) file (output_file_of file) = Exited 0 wr"
      "os_path_relpath (fs_cwd w) file music_dir = Inr rel"
      "os_makedirs (emit [Makedirs (os_path_dirname (os_path_join cdir rel))]
                     (emit [Subprocess (ffmpeg_command file (output_file_of file))]
                       (w\<lparr>fs_files := (case wr of None \<Rightarrow> fs_files w
                                         | Some k \<Rightarrow> (fs_files w)(output_file_of file \<mapsto> k))\<rparr>)))
                   (os_path_dirname (os_path_join cdir rel)) = Inr w2"
      "shutil_move (emit [Move file (os_path_join cdir rel)] w2) file (os_path_join cdir rel) = Inr w3"
      "calculate_size w3 (output_file_of file) = Inr m"
      "w' = emit [LogInfo (Converted dry file (output_file_of file))] w3"
      "t_o' = t_o + int n" "t_c' = t_c + int m"
proof (cases "5 < length (py_split os_sep file) \<and> py_split os_sep file ! 5 \<in> set artists")
  case False
  with assms have "w' = w" "t_o' = t_o" "t_c' = t_c"
    by (auto simp: process_file_def)
  with False show ?thesis by (rule skip)
next
  case sel: True
  then obtain n where n: "calculate_size w file = Inr n"
    using assms by (auto simp: process_file_def split: sum.splits)
  show ?thesis
  proof (cases dry)
    case True
    with assms sel n obtain rel w2 where
      "os_path_relpath (fs_cwd w) file music_dir = Inr rel"
      "os_makedirs (emit [Makedirs (os_path_dirname (os_path_join cdir rel))]
                     (emit [LogInfo (DryRunWouldConvert file (output_file_of file))] w))
                   (os_path_dirname (os_path_join cdir rel)) = Inr w2"
      "w' = emit [LogInfo (DryRunWouldMove file (os_path_join cdir rel)),
                  LogInfo (Converted dry file (output_file_of file))] w2"
      "t_o' = t_o + int n" "t_c' = t_c"
      by (auto simp: process_file_def convert_file_def split: sum.splits)
    with sel n True show ?thesis
      by (intro dry[of n rel w2]) simp_all
  next
    case False
    with assms sel n obtain rc wr where
      t: "ffmpeg (fs_files w) file (output_file_of file) = Exited rc wr"
      by (auto simp: process_file_def convert_file_def split: run_result.splits)
    show ?thesis
    proof (cases "rc = 0")
      case nz: False
      with assms sel n False t have
        "w' = emit [LogError (FailedToConvert dry file)]
             (emit [ErrorLoggerError (ErrorConverting file
                      (ffmpeg_command file (output_file_of file)) rc)]
               (emit [Subprocess (ffmpeg_command file (output_file_of file))]
                 (w\<lparr>fs_files := (case wr of None \<Rightarrow> fs_files w
                                   | Some k \<Rightarrow> (fs_files w)(output_file_of file \<mapsto> k))\<rparr>)))"
        "t_o' = t_o + int n" "t_c' = t_c"
        by (auto simp: process_file_def convert_file_def Let_def)
      with sel n False t nz show ?thesis
        by (intro failed[of n rc wr]) simp_all
    next
      case True
      with assms sel n False t obtain rel w2 w3 m where
        "os_path_relpath (fs_cwd w) file music_dir = Inr rel"
        "os_makedirs (emit [Makedirs (os_path_dirname (os_path_join cdir rel))]
                     (emit [Subprocess (ffmpeg_command file (output_file_of file))]
                       (w\<lparr>fs_files := (case wr of None \<Rightarrow> fs_files w
                                         | Some k \<Rightarrow> (fs_files w)(output_file_of file \<mapsto> k))\<rparr>)))
                   (os_path_dirname (os_path_join cdir rel)) = Inr w2"
        "shutil_move (emit [Move file (os_path_join cdir rel)] w2) file (os_path_join cdir rel)
           = Inr w3"
        "calculate_size w3 (output_file_of file) = Inr m"
        "w' = emit [LogInfo (Converted dry file (output_file_of file))] w3"
        "t_o' = t_o + int n" "t_c' = t_c + int m"
        by (auto simp: process_file_def convert_file_def Let_def split: sum.splits)
      with sel n False t True show ?thesis
        by (intro moved[of n wr rel w2 w3 m]) simp_all
    qed
  qed
qed

lemma os_makedirs_frame:
  assumes "os_makedirs w d = Inr w2"
  shows "fs_files w2 = fs_files w" "trace w2 = trace w" "fs_cwd w2 = fs_cwd w"
    "fs_dirs w \<subseteq> fs_dirs w2"
  using assms by (auto simp: os_makedirs_def split: if_splits)

lemma shutil_move_frame:
  assumes "shutil_move w src dst = Inr w3"
  shows "trace w3 = trace w" "fs_cwd w3 = fs_cwd w"
  using assms
  by (auto simp: shutil_move_def rename_dir_def os_makedirs_def Let_def
      split: option.splits if_splits sum.splits)


lemma process_loop_append_skip:
  assumes "\<not> (5 < length (py_split os_sep file) \<and> py_split os_sep file ! 5 \<in> set artists)"
  shows "process_loop ffmpeg (pre @ file # post) artists cdir dry st =
         process_loop ffmpeg (pre @ post) artists cdir dry st"
proof (induction pre arbitrary: st)
  case Nil
  show ?case by (simp add: process_file_skip[OF assms])
next
  case (Cons g pre)
  then show ?case by (simp split: sum.splits)
qed

text \<open>
  C10. A file whose path has 5 or fewer segments, or whose segment at index 5 is not
  among the selected artists, leaves the state of the loop as it was: the world
  (files, directories, trace of commands, moves and log entries) and both totals.
  The batch runs as if the file were not in it.
\<close>

theorem unselected_file_is_skipped:
  assumes "length (py_split os_sep file) \<le> 5 \<or> py_split os_sep file ! 5 \<notin> set convert_artists"
  shows "process_file ffmpeg file convert_artists converted_dir dry_run (w, t_o, t_c)
           = Inr (w, t_o, t_c)
       \<and> process_files ffmpeg (pre @ file # post) convert_artists converted_dir dry_run w
           = process_files ffmpeg (pre @ post) convert_artists converted_dir dry_run w"
proof -
  have n: "\<not> (5 < length (py_split os_sep file) \<and> py_split os_sep file ! 5 \<in> set convert_artists)"
    using assms by auto
  show ?thesis
    by (simp add: process_file_skip[OF n] process_files_def process_loop_append_skip[OF n])
qed

theorem unselected_file_is_skipped_witness:
  "py_split os_sep track ! 5 \<notin> set [''Beck'']
   \<and> process_file ffmpeg_ok track [''Beck''] flac_converted_dir False (example_world, 0, 0)
       = Inr (example_world, 0, 0)
   \<and> process_files ffmpeg_ok ([] @ track # []) [''Beck''] flac_converted_dir False example_world
       = process_files ffmpeg_ok ([] @ []) [''Beck''] flac_converted_dir False example_world"
proof -
  have h: "py_split os_sep track ! 5 \<notin> set [''Beck'']"
    by (simp add: track_def os_sep_def)
  then have "length (py_split os_sep track) \<le> 5 \<or> py_split os_sep track ! 5 \<notin> set [''Beck'']"
    by simp
  from unselected_file_is_skipped[OF this, of ffmpeg_ok flac_converted_dir False example_world 0 0
      "[]" "[]"] h
  show ?thesis by simp
qed

text \<open>
  C5. The claim: in dry-run mode the run mutates nothing in the file system, and the
  Relocator step (directory creation and move) is skipped. The code: after the
  Converter has returned success, \<open>os.makedirs\<close> runs before \<open>dry_run\<close> is tested, so
  a dry run over one selected track creates the track's directory under the
  converted tree.
\<close>

theorem dry_run_creates_directories:
  "(case process_files ffmpeg_ok [track] [''Abba''] flac_converted_dir True example_world of
      Inl ew \<Rightarrow> False
    | Inr w \<Rightarrow>
        trace w =
          [LogInfo (DryRunWouldConvert track track_mp3),
           Makedirs ''/Volumes/Media/Music/FLAC_CONVERTED/lib/Abba/Arrival'',
           LogInfo (DryRunWouldMove track track_moved),
           LogInfo (Converted True track track_mp3)]
        \<and> ''/Volumes/Media/Music/FLAC_CONVERTED/lib/Abba/Arrival'' \<in> fs_dirs w)
   \<and> ''/Volumes/Media/Music/FLAC_CONVERTED/lib/Abba/Arrival'' \<notin> fs_dirs example_world"
  by code_simp

section \<open>Properties of the Run Report\<close>

lemma process_file_increments:
  assumes "process_file ffmpeg file artists cdir False (w, t_o, t_c) = Inr (w', t_o', t_c')"
  shows "t_o' = t_o + (if attempted artists file then size_in w file else 0)"
    and "t_c' = t_c + (if attempted artists file \<and> exit_zero ffmpeg w file
                        then size_in w' (output_file_of file) else 0)"
proof -
  from assms have "t_o' = t_o + (if attempted artists file then size_in w file else 0)
     \<and> t_c' = t_c + (if attempted artists file \<and> exit_zero ffmpeg w file
                        then size_in w' (output_file_of file) else 0)"
  proof (cases rule: process_file_cases)
    case skip
    then show ?thesis by (auto simp: attempted_def)
  next
    case (failed n rc wr)
    then show ?thesis by (simp add: attempted_def exit_zero_def size_in_def)
  next
    case (dry n rel w2)
    then show ?thesis by simp
  next
    case (moved n wr rel w2 w3 m)
    then show ?thesis by (simp add: attempted_def exit_zero_def size_in_def)
  qed
  then show "t_o' = t_o + (if attempted artists file then size_in w file else 0)"
    and "t_c' = t_c + (if attempted artists file \<and> exit_zero ffmpeg w file
                        then size_in w' (output_file_of file) else 0)"
    by simp_all
qed

lemma process_file_shift:
  "process_file ffmpeg file artists cdir dry (w, x, y) =
     (case process_file ffmpeg file artists cdir dry (w, 0, 0) of
        Inl ew \<Rightarrow> Inl ew
      | Inr (w', a, b) \<Rightarrow> Inr (w', x + a, y + b))"
  by (simp add: process_file_def split: sum.split prod.split bool.split)

lemma process_file_zero:
  assumes "process_file ffmpeg file artists cdir dry (w, t_o, t_c) = Inr (w', t_o', t_c')"
  shows "\<exists>a b. process_file ffmpeg file artists cdir dry (w, 0, 0) = Inr (w', a, b)"
  using assms by (subst (asm) process_file_shift) (auto split: sum.splits)

lemma process_loop_totals:
  assumes "process_loop ffmpeg files artists cdir False (w, t_o, t_c) = Inr (w', t_o', t_c')"
  shows "t_o' = t_o + fst (report_sums ffmpeg files artists cdir w)
       \<and> t_c' = t_c + snd (report_sums ffmpeg files artists cdir w)"
  using assms
proof (induction files arbitrary: w t_o t_c)
  case Nil
  then show ?case by simp
next
  case (Cons f fs)
  from Cons.prems obtain w1 a b where
    step: "process_file ffmpeg f artists cdir False (w, t_o, t_c) = Inr (w1, a, b)"
    and rest: "process_loop ffmpeg fs artists cdir False (w1, a, b) = Inr (w', t_o', t_c')"
    by (auto split: sum.splits)
  from process_file_zero[OF step] obtain a0 b0 where
    z: "process_file ffmpeg f artists cdir False (w, 0, 0) = Inr (w1, a0, b0)" by blast
  from Cons.IH[OF rest] process_file_increments[OF step] z
  show ?case by (simp add: split_beta)
qed

lemma process_file_trace:
  assumes "process_file ffmpeg file artists cdir dry (w, t_o, t_c) = Inr (w', t_o', t_c')"
  shows "\<exists>evs. trace w' = trace w @ evs \<and> \<not> list_ex is_report evs"
  using assms
proof (cases rule: process_file_cases)
  case skip
  then show ?thesis by simp
next
  case (failed n rc wr)
  then show ?thesis by simp
next
  case (dry n rel w2)
  from os_makedirs_frame(2)[OF dry(6)] dry(7) show ?thesis by simp
next
  case (moved n wr rel w2 w3 m)
  from shutil_move_frame(1)[OF moved(8)] os_makedirs_frame(2)[OF moved(7)] moved(10)
  show ?thesis by simp
qed

lemma process_loop_trace:
  assumes "process_loop ffmpeg files artists cdir dry (w, t_o, t_c) = Inr (w', t_o', t_c')"
  shows "\<exists>evs. trace w' = trace w @ evs \<and> \<not> list_ex is_report evs"
  using assms
proof (induction files arbitrary: w t_o t_c)
  case Nil
  then show ?case by simp
next
  case (Cons f fs)
  from Cons.prems obtain w1 a b where
    step: "process_file ffmpeg f artists cdir dry (w, t_o, t_c) = Inr (w1, a, b)"
    and rest: "process_loop ffmpeg fs artists cdir dry (w1, a, b) = Inr (w', t_o', t_c')"
    by (auto split: sum.splits)
  from process_file_trace[OF step] obtain e1 where
    e1: "trace w1 = trace w @ e1" "\<not> list_ex is_report e1" by blast
  from Cons.IH[OF rest] obtain e2 where
    e2: "trace w' = trace w1 @ e2" "\<not> list_ex is_report e2" by blast
  from e1 e2 have "trace w' = trace w @ (e1 @ e2) \<and> \<not> list_ex is_report (e1 @ e2)"
    by (auto simp: list_ex_iff)
  then show ?case by blast
qed

text \<open>
  C4. Outside dry-run, a batch that runs to its end has printed and logged the
  report as the last six events of the run, and nothing of a report before them:
  the three figures printed and then the same three logged. The figures are the
  total of the original sizes of all files whose conversion was attempted (whether
  or not it succeeded), the total of the converted sizes of those whose conversion
  succeeded, and as space saved the first minus the second, an integer that may be
  negative. In dry-run mode the run prints nothing and logs none of the totals.
\<close>

theorem run_report_totals:
  "(process_files ffmpeg files convert_artists converted_dir False w = Inr w' \<longrightarrow>
      (\<exists>evs. trace w' = trace w @ evs @
                [Print (TotalOriginalMB
                   (fst (report_sums ffmpeg files convert_artists converted_dir w))),
                 Print (TotalConvertedMB
                   (snd (report_sums ffmpeg files convert_artists converted_dir w))),
                 Print (SpaceSavedMB
                   (fst (report_sums ffmpeg files convert_artists converted_dir w)
                    - snd (report_sums ffmpeg files convert_artists converted_dir w))),
                 LogInfo (TotalOriginalBytes
                   (fst (report_sums ffmpeg files convert_artists converted_dir w))),
                 LogInfo (TotalConvertedBytes
                   (snd (report_sums ffmpeg files convert_artists converted_dir w))),
                 LogInfo (SpaceSavedBytes
                   (fst (report_sums ffmpeg files convert_artists converted_dir w)
                    - snd (report_sums ffmpeg files convert_artists converted_dir w)))]
            \<and> \<not> list_ex is_report evs))
   \<and> (process_files ffmpeg files convert_artists converted_dir True w = Inr w' \<longrightarrow>
        (\<exists>evs. trace w' = trace w @ evs \<and> \<not> list_ex is_report evs))"
proof (intro conjI impI)
  assume r: "process_files ffmpeg files convert_artists converted_dir False w = Inr w'"
  then obtain w'' a b where
    l: "process_loop ffmpeg files convert_artists converted_dir False (w, 0, 0) = Inr (w'', a, b)"
    by (auto simp: process_files_def split: sum.splits)
  from process_loop_totals[OF l]
  have ab: "report_sums ffmpeg files convert_artists converted_dir w = (a, b)"
    by (simp add: prod_eq_iff)
  from process_loop_trace[OF l] obtain evs where
    evs: "trace w'' = trace w @ evs" "\<not> list_ex is_report evs" by blast
  from r l have "trace w' = trace w'' @
      [Print (TotalOriginalMB a), Print (TotalConvertedMB b), Print (SpaceSavedMB (a - b)),
       LogInfo (TotalOriginalBytes a), LogInfo (TotalConvertedBytes b),
       LogInfo (SpaceSavedBytes (a - b))]"
    by (auto simp: process_files_def)
  with evs show "\<exists>evs. trace w' = trace w @ evs @
                [Print (TotalOriginalMB
                   (fst (report_sums ffmpeg files convert_artists converted_dir w))),
                 Print (TotalConvertedMB
                   (snd (report_sums ffmpeg files convert_artists converted_dir w))),
                 Print (SpaceSavedMB
                   (fst (report_sums ffmpeg files convert_artists converted_dir w)
                    - snd (report_sums ffmpeg files convert_artists converted_dir w))),
                 LogInfo (TotalOriginalBytes
                   (fst (report_sums ffmpeg files convert_artists converted_dir w))),
                 LogInfo (TotalConvertedBytes
                   (snd (report_sums ffmpeg files convert_artists converted_dir w))),
                 LogInfo (SpaceSavedBytes
                   (fst (report_sums ffmpeg files convert_artists converted_dir w)
                    - snd (report_sums ffmpeg files convert_artists converted_dir w)))]
            \<and> \<not> list_ex is_report evs"
    unfolding ab by (intro exI[of _ evs]) simp
next
  assume r: "process_files ffmpeg files convert_artists converted_dir True w = Inr w'"
  then obtain a b where
    "process_loop ffmpeg files convert_artists converted_dir True (w, 0, 0) = Inr (w', a, b)"
    by (auto simp: process_files_def split: sum.splits)
  then show "\<exists>evs. trace w' = trace w @ evs \<and> \<not> list_ex is_report evs"
    by (rule process_loop_trace)
qed

theorem run_report_totals_witness:
  "report_sums ffmpeg_grows [track] [''Abba''] flac_converted_dir example_world = (3000, 5000)
   \<and> (\<exists>w' evs. process_files ffmpeg_grows [track] [''Abba''] flac_converted_dir False example_world
                  = Inr w'
          \<and> trace w' = trace example_world @ evs @
               [Print (TotalOriginalMB 3000), Print (TotalConvertedMB 5000),
                Print (SpaceSavedMB (- 2000)), LogInfo (TotalOriginalBytes 3000),
                LogInfo (TotalConvertedBytes 5000), LogInfo (SpaceSavedBytes (- 2000))]
          \<and> \<not> list_ex is_report evs
          \<and> evs = [Subprocess (ffmpeg_command track track_mp3),
                   Makedirs ''/Volumes/Media/Music/FLAC_CONVERTED/lib/Abba/Arrival'',
                   Move track track_moved,
                   LogInfo (Converted False track track_mp3)])
   \<and> (\<exists>w' evs. process_files ffmpeg_grows [track] [''Abba''] flac_converted_dir True example_world
                  = Inr w'
          \<and> trace w' = trace example_world @ evs \<and> \<not> list_ex is_report evs
          \<and> evs = [LogInfo (DryRunWouldConvert track track_mp3),
                   Makedirs ''/Volumes/Media/Music/FLAC_CONVERTED/lib/Abba/Arrival'',
                   LogInfo (DryRunWouldMove track track_moved),
                   LogInfo (Converted True track track_mp3)])"
proof -
  have sums: "report_sums ffmpeg_grows [track] [''Abba''] flac_converted_dir example_world
      = (3000, 5000)"
    by code_simp
  have empty: "trace example_world = []"
    by (simp add: example_world_def)
  have "case process_files ffmpeg_grows [track] [''Abba''] flac_converted_dir False example_world of
          Inl ew \<Rightarrow> False
        | Inr w1 \<Rightarrow> trace w1 =
            [Subprocess (ffmpeg_command track track_mp3),
             Makedirs ''/Volumes/Media/Music/FLAC_CONVERTED/lib/Abba/Arrival'',
             Move track track_moved,
             LogInfo (Converted False track track_mp3),
             Print (TotalOriginalMB 3000), Print (TotalConvertedMB 5000),
             Print (SpaceSavedMB (- 2000)), LogInfo (TotalOriginalBytes 3000),
             LogInfo (TotalConvertedBytes 5000), LogInfo (SpaceSavedBytes (- 2000))]"
    by code_simp
  then obtain w1 where
    live: "process_files ffmpeg_grows [track] [''Abba''] flac_converted_dir False example_world
      = Inr w1"
    and t1: "trace w1 =
            [Subprocess (ffmpeg_command track track_mp3),
             Makedirs ''/Volumes/Media/Music/FLAC_CONVERTED/lib/Abba/Arrival'',
             Move track track_moved,
             LogInfo (Converted False track track_mp3),
             Print (TotalOriginalMB 3000), Print (TotalConvertedMB 5000),
             Print (SpaceSavedMB (- 2000)), LogInfo (TotalOriginalBytes 3000),
             LogInfo (TotalConvertedBytes 5000), LogInfo (SpaceSavedBytes (- 2000))]"
    by (auto split: sum.splits)
  have "case process_files ffmpeg_grows [track] [''Abba''] flac_converted_dir True example_world of
          Inl ew \<Rightarrow> False
        | Inr w2 \<Rightarrow> trace w2 =
            [LogInfo (DryRunWouldConvert track track_mp3),
             Makedirs ''/Volumes/Media/Music/FLAC_CONVERTED/lib/Abba/Arrival'',
             LogInfo (DryRunWouldMove track track_moved),
             LogInfo (Converted True track track_mp3)]"
    by code_simp
  then obtain w2 where
    dry: "process_files ffmpeg_grows [track] [''Abba''] flac_converted_dir True example_world
      = Inr w2"
    and t2: "trace w2 =
            [LogInfo (DryRunWouldConvert track track_mp3),
             Makedirs ''/Volumes/Media/Music/FLAC_CONVERTED/lib/Abba/Arrival'',
             LogInfo (DryRunWouldMove track track_moved),
             LogInfo (Converted True track track_mp3)]"
    by (auto split: sum.splits)
  from run_report_totals[of ffmpeg_grows "[track]" "[''Abba'']" flac_converted_dir example_world w1]
    live sums empty
  obtain e1 where a: "trace w1 = e1 @
               [Print (TotalOriginalMB 3000), Print (TotalConvertedMB 5000),
                Print (SpaceSavedMB (- 2000)), LogInfo (TotalOriginalBytes 3000),
                LogInfo (TotalConvertedBytes 5000), LogInfo (SpaceSavedBytes (- 2000))]"
    and a': "\<not> list_ex is_report e1"
    by auto
  from a t1 have e1: "e1 = [Subprocess (ffmpeg_command track track_mp3),
                   Makedirs ''/Volumes/Media/Music/FLAC_CONVERTED/lib/Abba/Arrival'',
                   Move track track_moved,
                   LogInfo (Converted False track track_mp3)]"
    by simp
  from run_report_totals[of ffmpeg_grows "[track]" "[''Abba'']" flac_converted_dir example_world w2]
    dry empty
  obtain e2 where b: "trace w2 = e2" and b': "\<not> list_ex is_report e2"
    by auto
  from sums live dry a a' e1 b b' t2 empty show ?thesis by simp
qed
section \<open>Properties of the output path, continued\<close>

text \<open>
  C9. The claim: the output path is the input path with the source extension
  substituted by \<open>.mp3\<close>, so the converted file is written beside the original. The
  code: line 96 replaces \<open>.flac\<close> and \<open>.m4a\<close> wherever they stand in the path, not only
  at its end. For a track in a directory named \<open>Gold.flac\<close> the transcoder is sent
  to write into another directory, \<open>Gold.mp3\<close>.
\<close>

theorem output_file_in_other_directory:
  "output_file_of gold_track = ''/Volumes/Media/Music/lib/Abba/Gold.mp3/01.mp3''
   \<and> os_path_dirname gold_track = ''/Volumes/Media/Music/lib/Abba/Gold.flac''
   \<and> os_path_dirname (output_file_of gold_track) = ''/Volumes/Media/Music/lib/Abba/Gold.mp3''
   \<and> trace (snd (convert_file ffmpeg_ok example_world gold_track (output_file_of gold_track)
                    False))
       = [Subprocess [''ffmpeg'', ''-i'', ''/Volumes/Media/Music/lib/Abba/Gold.flac/01.flac'',
                      ''-b:a'', ''320k'', ''/Volumes/Media/Music/lib/Abba/Gold.mp3/01.mp3'']]"
  by code_simp

lemma convert_file_keeps_other:
  "p \<noteq> output_file \<Longrightarrow>
     fs_files (snd (convert_file ffmpeg w input_file output_file dry_run)) p = fs_files w p"
  by (simp add: convert_file_def Let_def split: run_result.split option.split)

text \<open>
  Where the extension at the end is the only place at which \<open>.flac\<close> or \<open>.m4a\<close> stands
  in the path, the output path is the path with that extension replaced by \<open>.mp3\<close>:
  it lies in the directory of the original and differs from the original, whose
  entry in the file system the Converter leaves as it is.
\<close>

lemma output_file_of_extension:
  assumes "\<not> sublist ''.flac'' stem" and "\<not> sublist ''.m4a'' stem"
    and "ext = ''.flac'' \<or> ext = ''.m4a''"
  shows "output_file_of (stem @ ext) = stem @ ''.mp3''
       \<and> os_path_dirname (output_file_of (stem @ ext)) = os_path_dirname (stem @ ext)
       \<and> output_file_of (stem @ ext) \<noteq> stem @ ext
       \<and> fs_files (snd (convert_file ffmpeg w (stem @ ext) (output_file_of (stem @ ext)) dry_run))
            (stem @ ext) = fs_files w (stem @ ext)"
proof -
  have out: "output_file_of (stem @ ext) = stem @ ''.mp3''"
    using assms output_file_of_flac output_file_of_m4a by blast
  have "os_sep \<notin> set ext" "os_sep \<notin> set ''.mp3''"
    using assms(3) by (auto simp: os_sep_def)
  then have dir: "os_path_dirname (stem @ ''.mp3'') = os_path_dirname (stem @ ext)"
    by (simp add: os_path_dirname_def os_path_split_ext)
  have ne: "stem @ ''.mp3'' \<noteq> stem @ ext"
    using assms(3) by auto
  from ne have "fs_files (snd (convert_file ffmpeg w (stem @ ext) (stem @ ''.mp3'') dry_run))
            (stem @ ext) = fs_files w (stem @ ext)"
    by (intro convert_file_keeps_other) simp
  with out dir ne show ?thesis by simp
qed

section \<open>Properties of a failed conversion\<close>












end
